theory Spec2Isabelle
  imports Main "HOL-Library.Word"
begin

section \<open>Data model\<close>

text \<open>
  A Go byte slice and a Go string are both byte sequences; an Isabelle \<open>char\<close> is one
  byte, so both are \<open>char list\<close> and \<open>string(sniSlice)\<close> is the identity. Where the
  source distinguishes the nil slice (a missing map entry, \<open>chloOrNil\<close>, the result of
  \<open>DiversificationNonce\<close>) the value is a \<open>bytes option\<close> and \<open>None\<close> is nil.
\<close>

type_synonym bytes = "char list"
type_synonym IP = bytes
type_synonym ConnectionID = "64 word"
type_synonym PacketNumber = "64 word"
type_synonym VersionNumber = int

text \<open>
  Modelled from the spec: the tag constants of the handshake package are not part of
  the sources at hand; they are distinct four-character tags.
\<close>

datatype Tag =
    TagCHLO | TagREJ | TagSHLO | TagSCFG | TagSNI | TagSCID | TagSTK | TagCCS | TagCCRT
  | TagCERT | TagPROF | TagPUBS | TagNONC | TagSNO | TagVER | TagOther "32 word"

type_synonym TagMap = "Tag \<rightharpoonup> bytes"

datatype ErrorCode =
    InvalidCryptoMessageType
  | CryptoMessageParameterNotFound
  | CryptoInvalidValueLength
  | PacketTooLarge
  | InvalidPacketHeader

text \<open>
  \<open>qerr c\<close> is the error code \<open>c\<close> returned as an error value, \<open>qerr_Error c msg\<close> is
  \<open>qerr.Error(c, msg)\<close>, \<open>External msg\<close> is an error produced by a collaborator, and
  \<open>NilPointerDereference\<close> is the run-time panic of a method call on a nil interface.
\<close>

datatype error =
    qerr ErrorCode
  | qerr_Error ErrorCode string
  | External string
  | NilPointerDereference

text \<open>The interface \<open>crypto.AEAD\<close>: a value with the two methods.\<close>

record AEAD =
  AEAD_Open :: "PacketNumber \<Rightarrow> bytes \<Rightarrow> bytes \<Rightarrow> error + bytes"
  AEAD_Seal :: "PacketNumber \<Rightarrow> bytes \<Rightarrow> bytes \<Rightarrow> bytes"

record KeyExchange =
  CalculateSharedKey :: "bytes \<Rightarrow> error + bytes"
  PublicKey :: bytes

record StkSource =
  VerifyToken :: "IP \<Rightarrow> bytes \<Rightarrow> error option"
  NewToken :: "IP \<Rightarrow> error + bytes"

record ServerConfig =
  scfg_ID :: bytes
  scfg_kex :: KeyExchange
  scfg_GetLeafCert :: "string \<Rightarrow> error + bytes"
  scfg_stkSource :: StkSource
  scfg_Get :: bytes
  scfg_Sign :: "string \<Rightarrow> bytes option \<Rightarrow> error + bytes"
  scfg_GetCertsCompressed :: "string \<Rightarrow> bytes \<Rightarrow> bytes \<Rightarrow> error + bytes"

record ConnectionParametersManager =
  SetFromMap :: "TagMap \<Rightarrow> error option"
  GetSHLOMap :: "TagMap \<Rightarrow> TagMap"

text \<open>
  A key derivation returns the pair \<open>(crypto.AEAD, error)\<close>; the caller stores the
  first component before it looks at the second, so both are kept.
\<close>

type_synonym KeyDerivationFunction =
  "VersionNumber \<Rightarrow> bool \<Rightarrow> bytes \<Rightarrow> bytes \<Rightarrow> ConnectionID \<Rightarrow> bytes \<Rightarrow> bytes \<Rightarrow> bytes
     \<Rightarrow> bytes option \<Rightarrow> AEAD option \<times> error option"

type_synonym KeyExchangeFunction = "error + KeyExchange"

text \<open>
  What one goroutine does to the outside, in program order: a write on the crypto
  stream, a send on the \<open>aeadChanged\<close> channel, a call of \<open>ServerConfig.Sign\<close> with its
  arguments.
\<close>

datatype event =
    StreamWrite bytes
  | AeadChanged
  | SignCall string "bytes option"

text \<open>
  The struct \<open>CryptoSetup\<close>. The mutex is left out: \<open>handleCHLO\<close> assigns both AEADs
  under the write lock and \<open>Open\<close> and \<open>Seal\<close> run under the read lock, so each of them
  is one step. \<open>cryptoStream_Write\<close> is the write half of the crypto stream, its
  read half is the list of messages given to \<open>HandleCryptoStream\<close>. \<open>trace\<close> is not a
  field of the source: it records the events of the handshake goroutine.
\<close>

record CryptoSetup =
  connID :: ConnectionID
  ip :: IP
  version :: VersionNumber
  scfg :: ServerConfig
  nonce :: bytes
  diversificationNonce :: bytes
  secureAEAD :: "AEAD option"
  forwardSecureAEAD :: "AEAD option"
  receivedForwardSecurePacket :: bool
  receivedSecurePacket :: bool
  keyDerivation :: KeyDerivationFunction
  keyExchange :: KeyExchangeFunction
  cryptoStream_Write :: "bytes \<Rightarrow> error option"
  connectionParametersManager :: ConnectionParametersManager
  trace :: "event list"

text \<open>
  The functions and constants of the packages \<open>crypto\<close>, \<open>handshake\<close> and \<open>protocol\<close>
  that the handshake code calls and that are not part of the sources at hand; every
  theorem holds for all of them.
\<close>

record externals =
  NullAEAD :: AEAD
  DeriveKeysChacha20 :: KeyDerivationFunction
  NewCurve25519KEX :: KeyExchangeFunction
  WriteHandshakeMessage :: "Tag \<Rightarrow> TagMap \<Rightarrow> bytes"
  SupportedVersionsAsTags :: bytes

text \<open>
  Modelled from the spec: \<open>protocol.ClientHelloMinimumSize\<close> is declared outside the
  sources at hand; the spec gives \<open>CLIENT_HELLO_MIN_SIZE = 1024\<close>.
\<close>

definition ClientHelloMinimumSize :: nat where
  "ClientHelloMinimumSize = 1024"

text \<open>A missing map entry reads as the nil slice, which has no bytes.\<close>

definition bytes_of :: "bytes option \<Rightarrow> bytes" where
  "bytes_of v = (case v of None \<Rightarrow> [] | Some b \<Rightarrow> b)"

section \<open>CryptoSetup\<close>

text \<open>
  \<open>io.ReadFull(rand.Reader, buf)\<close> fills the buffer or fails. The entropy source is the
  list of bytes it will deliver; the result is the bytes read and the rest.
\<close>

definition ReadFull :: "bytes \<Rightarrow> nat \<Rightarrow> error + (bytes \<times> bytes)" where
  "ReadFull entropy n =
     (if length entropy < n then Inl (External ''unexpected EOF'')
      else Inr (take n entropy, drop n entropy))"

definition NewCryptoSetup ::
  "externals \<Rightarrow> ConnectionID \<Rightarrow> IP \<Rightarrow> VersionNumber \<Rightarrow> ServerConfig \<Rightarrow> (bytes \<Rightarrow> error option)
     \<Rightarrow> ConnectionParametersManager \<Rightarrow> bytes \<Rightarrow> error + CryptoSetup" where
  "NewCryptoSetup ext cid addr v cfg stream cpm entropy =
     (case ReadFull entropy 32 of
        Inl err \<Rightarrow> Inl err
      | Inr (n, entropy') \<Rightarrow>
          (case ReadFull entropy' 32 of
             Inl err \<Rightarrow> Inl err
           | Inr (dn, _) \<Rightarrow>
               Inr \<lparr> connID = cid, ip = addr, version = v, scfg = cfg, nonce = n,
                     diversificationNonce = dn, secureAEAD = None, forwardSecureAEAD = None,
                     receivedForwardSecurePacket = False, receivedSecurePacket = False,
                     keyDerivation = DeriveKeysChacha20 ext,
                     keyExchange = NewCurve25519KEX ext,
                     cryptoStream_Write = stream, connectionParametersManager = cpm,
                     trace = [] \<rparr>))"

subsection \<open>Open, Seal, DiversificationNonce\<close>

text \<open>
  \<open>Open\<close> returns what the source returns, the new state, and the AEAD whose \<open>Open\<close>
  produced the returned value (the branch of the source that returned).
\<close>

datatype tier = ForwardSecureTier | SecureTier | NullTier

type_synonym open_result = "(error + bytes) \<times> tier"

text \<open>The first block of \<open>Open\<close>: \<open>Some\<close> when it returns, \<open>None\<close> when it falls through.\<close>

definition Open_forwardSecure ::
  "CryptoSetup \<Rightarrow> PacketNumber \<Rightarrow> bytes \<Rightarrow> bytes \<Rightarrow> (open_result \<times> CryptoSetup) option" where
  "Open_forwardSecure h packetNumber associatedData ciphertext =
     (case forwardSecureAEAD h of
        None \<Rightarrow> None
      | Some fs \<Rightarrow>
          (case AEAD_Open fs packetNumber associatedData ciphertext of
             Inr res \<Rightarrow>
               Some ((Inr res, ForwardSecureTier), h\<lparr>receivedForwardSecurePacket := True\<rparr>)
           | Inl err \<Rightarrow>
               if receivedForwardSecurePacket h then Some ((Inl err, ForwardSecureTier), h)
               else None))"

text \<open>The second block of \<open>Open\<close>.\<close>

definition Open_secure ::
  "CryptoSetup \<Rightarrow> PacketNumber \<Rightarrow> bytes \<Rightarrow> bytes \<Rightarrow> (open_result \<times> CryptoSetup) option" where
  "Open_secure h packetNumber associatedData ciphertext =
     (case secureAEAD h of
        None \<Rightarrow> None
      | Some s \<Rightarrow>
          (case AEAD_Open s packetNumber associatedData ciphertext of
             Inr res \<Rightarrow> Some ((Inr res, SecureTier), h\<lparr>receivedSecurePacket := True\<rparr>)
           | Inl err \<Rightarrow>
               if receivedSecurePacket h then Some ((Inl err, SecureTier), h) else None))"

definition Open ::
  "externals \<Rightarrow> CryptoSetup \<Rightarrow> PacketNumber \<Rightarrow> bytes \<Rightarrow> bytes \<Rightarrow> open_result \<times> CryptoSetup" where
  "Open ext h packetNumber associatedData ciphertext =
     (case Open_forwardSecure h packetNumber associatedData ciphertext of
        Some r \<Rightarrow> r
      | None \<Rightarrow>
          (case Open_secure h packetNumber associatedData ciphertext of
             Some r \<Rightarrow> r
           | None \<Rightarrow>
               ((AEAD_Open (NullAEAD ext) packetNumber associatedData ciphertext, NullTier), h)))"

text \<open>A sequence of \<open>Open\<close> calls on one \<open>CryptoSetup\<close>, with the result of each.\<close>

fun Opens ::
  "externals \<Rightarrow> CryptoSetup \<Rightarrow> (PacketNumber \<times> bytes \<times> bytes) list
     \<Rightarrow> open_result list \<times> CryptoSetup" where
  "Opens ext h [] = ([], h)"
| "Opens ext h ((pn, ad, ct) # calls) =
     (case Open ext h pn ad ct of
        (r, h') \<Rightarrow> (case Opens ext h' calls of (rs, h'') \<Rightarrow> (r # rs, h'')))"

definition succeeded_under :: "tier \<Rightarrow> open_result \<Rightarrow> bool" where
  "succeeded_under t r = (case r of (Inr _, t') \<Rightarrow> t' = t | (Inl _, _) \<Rightarrow> False)"

text \<open>
  \<open>Seal\<close> calls the method of \<open>forwardSecureAEAD\<close> without a nil check: on a nil
  interface the call panics.
\<close>

definition Seal ::
  "externals \<Rightarrow> CryptoSetup \<Rightarrow> PacketNumber \<Rightarrow> bytes \<Rightarrow> bytes \<Rightarrow> error + bytes" where
  "Seal ext h packetNumber associatedData plaintext =
     (if receivedForwardSecurePacket h then
        (case forwardSecureAEAD h of
           None \<Rightarrow> Inl NilPointerDereference
         | Some fs \<Rightarrow> Inr (AEAD_Seal fs packetNumber associatedData plaintext))
      else
        (case secureAEAD h of
           Some s \<Rightarrow> Inr (AEAD_Seal s packetNumber associatedData plaintext)
         | None \<Rightarrow> Inr (AEAD_Seal (NullAEAD ext) packetNumber associatedData plaintext)))"

text \<open>
  The rule of the specification for the AEAD of \<open>Seal\<close>, in its words: the
  forward-secure AEAD if \<open>receivedForwardSecurePacket\<close>, else the secure AEAD if it is
  not nil, else the null AEAD.
\<close>

definition Seal_choice :: "externals \<Rightarrow> CryptoSetup \<Rightarrow> AEAD option" where
  "Seal_choice ext h =
     (if receivedForwardSecurePacket h then forwardSecureAEAD h
      else if secureAEAD h \<noteq> None then secureAEAD h
      else Some (NullAEAD ext))"

definition DiversificationNonce :: "CryptoSetup \<Rightarrow> bytes option" where
  "DiversificationNonce h =
     (if version h < 33 then None
      else if receivedForwardSecurePacket h \<or> secureAEAD h = None then None
      else Some (diversificationNonce h))"

subsection \<open>The handshake\<close>

definition isInchoateCHLO :: "CryptoSetup \<Rightarrow> TagMap \<Rightarrow> bool" where
  "isInchoateCHLO h cryptoData =
     (case cryptoData TagSCID of
        None \<Rightarrow> True
      | Some scid \<Rightarrow>
          if scfg_ID (scfg h) \<noteq> scid then True
          else
            (case VerifyToken (scfg_stkSource (scfg h)) (ip h) (bytes_of (cryptoData TagSTK)) of
               Some err \<Rightarrow> False
             | None \<Rightarrow> False))"

definition handleInchoateCHLO ::
  "externals \<Rightarrow> CryptoSetup \<Rightarrow> string \<Rightarrow> bytes \<Rightarrow> TagMap \<Rightarrow> (error + bytes) \<times> CryptoSetup" where
  "handleInchoateCHLO ext h sni data cryptoData =
     (if length data < ClientHelloMinimumSize then
        (Inl (qerr_Error CryptoInvalidValueLength ''CHLO too small''), h)
      else
        let chloOrNil = (if version h > 30 then Some data else None);
            h1 = h\<lparr>trace := trace h @ [SignCall sni chloOrNil]\<rparr>
        in
        (case scfg_Sign (scfg h1) sni chloOrNil of
           Inl err \<Rightarrow> (Inl err, h1)
         | Inr proof \<Rightarrow>
             let commonSetHashes = bytes_of (cryptoData TagCCS);
                 cachedCertsHashes = bytes_of (cryptoData TagCCRT)
             in
             (case scfg_GetCertsCompressed (scfg h1) sni commonSetHashes cachedCertsHashes of
                Inl err \<Rightarrow> (Inl err, h1)
              | Inr certCompressed \<Rightarrow>
                  (case NewToken (scfg_stkSource (scfg h1)) (ip h1) of
                     Inl err \<Rightarrow> (Inl err, h1)
                   | Inr token \<Rightarrow>
                       (Inr (WriteHandshakeMessage ext TagREJ
                               [TagSCFG \<mapsto> scfg_Get (scfg h1),
                                TagCERT \<mapsto> certCompressed,
                                TagPROF \<mapsto> proof,
                                TagSTK \<mapsto> token]),
                        h1)))))"

text \<open>
  \<open>handleCHLO\<close> stores each result of the key derivation in its field before it
  checks the error, and sends on \<open>aeadChanged\<close> before it returns the reply.
\<close>

definition handleCHLO ::
  "externals \<Rightarrow> CryptoSetup \<Rightarrow> string \<Rightarrow> bytes \<Rightarrow> TagMap \<Rightarrow> (error + bytes) \<times> CryptoSetup" where
  "handleCHLO ext h sni data cryptoData =
     (case CalculateSharedKey (scfg_kex (scfg h)) (bytes_of (cryptoData TagPUBS)) of
        Inl err \<Rightarrow> (Inl err, h)
      | Inr sharedSecret \<Rightarrow>
     (case scfg_GetLeafCert (scfg h) sni of
        Inl err \<Rightarrow> (Inl err, h)
      | Inr certUncompressed \<Rightarrow>
     (case keyDerivation h (version h) False sharedSecret (bytes_of (cryptoData TagNONC))
             (connID h) data (scfg_Get (scfg h)) certUncompressed
             (Some (diversificationNonce h)) of
        (aead1, err1) \<Rightarrow>
     let h1 = h\<lparr>secureAEAD := aead1\<rparr> in
     (case err1 of
        Some err \<Rightarrow> (Inl err, h1)
      | None \<Rightarrow>
     let fsNonce = bytes_of (cryptoData TagNONC) @ nonce h1 in
     (case keyExchange h1 of
        Inl err \<Rightarrow> (Inl err, h1)
      | Inr ephermalKex \<Rightarrow>
     (case CalculateSharedKey ephermalKex (bytes_of (cryptoData TagPUBS)) of
        Inl err \<Rightarrow> (Inl err, h1)
      | Inr ephermalSharedSecret \<Rightarrow>
     (case keyDerivation h1 (version h1) True ephermalSharedSecret fsNonce
             (connID h1) data (scfg_Get (scfg h1)) certUncompressed None of
        (aead2, err2) \<Rightarrow>
     let h2 = h1\<lparr>forwardSecureAEAD := aead2\<rparr> in
     (case err2 of
        Some err \<Rightarrow> (Inl err, h2)
      | None \<Rightarrow>
     (case SetFromMap (connectionParametersManager h2) cryptoData of
        Some err \<Rightarrow> (Inl err, h2)
      | None \<Rightarrow>
     let replyMap = (GetSHLOMap (connectionParametersManager h2) cryptoData)
                      (TagPUBS \<mapsto> PublicKey ephermalKex,
                       TagSNO \<mapsto> nonce h2,
                       TagVER \<mapsto> SupportedVersionsAsTags ext);
         reply = WriteHandshakeMessage ext TagSHLO replyMap;
         h3 = h2\<lparr>trace := trace h2 @ [AeadChanged]\<rparr>
     in (Inr reply, h3))))))))))"

text \<open>\<open>cryptoStream.Write(reply)\<close>: the write is an event whether or not it fails.\<close>

definition Write :: "CryptoSetup \<Rightarrow> bytes \<Rightarrow> error option \<times> CryptoSetup" where
  "Write h reply = (cryptoStream_Write h reply, h\<lparr>trace := trace h @ [StreamWrite reply]\<rparr>)"

text \<open>The result is the pair \<open>(done, err)\<close> of the source.\<close>

definition handleMessage ::
  "externals \<Rightarrow> CryptoSetup \<Rightarrow> bytes \<Rightarrow> TagMap \<Rightarrow> (bool \<times> error option) \<times> CryptoSetup" where
  "handleMessage ext h chloData cryptoData =
     (case cryptoData TagSNI of
        None \<Rightarrow> ((False, Some (qerr_Error CryptoMessageParameterNotFound ''SNI required'')), h)
      | Some sni \<Rightarrow>
          if sni = [] then
            ((False, Some (qerr_Error CryptoMessageParameterNotFound ''SNI required'')), h)
          else if \<not> isInchoateCHLO h cryptoData then
            (case handleCHLO ext h sni chloData cryptoData of
               (Inl err, h1) \<Rightarrow> ((False, Some err), h1)
             | (Inr reply, h1) \<Rightarrow>
                 (case Write h1 reply of
                    (Some err, h2) \<Rightarrow> ((False, Some err), h2)
                  | (None, h2) \<Rightarrow> ((True, None), h2)))
          else
            (case handleInchoateCHLO ext h sni chloData cryptoData of
               (Inl err, h1) \<Rightarrow> ((False, Some err), h1)
             | (Inr reply, h1) \<Rightarrow>
                 (case Write h1 reply of
                    (Some err, h2) \<Rightarrow> ((False, Some err), h2)
                  | (None, h2) \<Rightarrow> ((False, None), h2))))"

text \<open>
  One message read from the crypto stream by \<open>ParseHandshakeMessage\<close> (which is not
  part of the sources at hand): a parse error, or the message tag, the tag map and the
  raw bytes the caching reader has seen.
\<close>

type_synonym parsed = "error + (Tag \<times> TagMap \<times> bytes)"

text \<open>The body of the loop of \<open>HandleCryptoStream\<close>: it returns, or goes round again.\<close>

datatype outcome = Return "error option" | Continue

definition HandleCryptoStream_body ::
  "externals \<Rightarrow> CryptoSetup \<Rightarrow> parsed \<Rightarrow> outcome \<times> CryptoSetup" where
  "HandleCryptoStream_body ext h msg =
     (case msg of
        Inl err \<Rightarrow> (Return (Some err), h)
      | Inr (messageTag, cryptoData, chloData) \<Rightarrow>
          if messageTag \<noteq> TagCHLO then (Return (Some (qerr InvalidCryptoMessageType)), h)
          else
            (case handleMessage ext h chloData cryptoData of
               ((_, Some err), h') \<Rightarrow> (Return (Some err), h')
             | ((done, None), h') \<Rightarrow> if done then (Return None, h') else (Continue, h')))"

text \<open>
  The loop reads until it returns. The stream is the list of messages that arrive on
  it; after the last one the stream is closed and the next read fails.
\<close>

fun HandleCryptoStream ::
  "externals \<Rightarrow> CryptoSetup \<Rightarrow> parsed list \<Rightarrow> error option \<times> CryptoSetup" where
  "HandleCryptoStream ext h [] = (Some (External ''EOF''), h)"
| "HandleCryptoStream ext h (msg # stream) =
     (case HandleCryptoStream_body ext h msg of
        (Return r, h') \<Rightarrow> (r, h')
      | (Continue, h') \<Rightarrow> HandleCryptoStream ext h' stream)"

text \<open>
  The states of a \<open>CryptoSetup\<close> in a session: it is made by \<open>NewCryptoSetup\<close>, the
  session runs \<open>HandleCryptoStream\<close> once on the crypto stream, and the packet
  processor calls \<open>Open\<close> at any moment (\<open>Seal\<close> and \<open>DiversificationNonce\<close> change
  nothing). The flag says that \<open>HandleCryptoStream\<close> has returned.
\<close>

inductive reachable :: "externals \<Rightarrow> CryptoSetup \<Rightarrow> bool \<Rightarrow> bool" for ext :: externals where
  created:
    "NewCryptoSetup ext cid addr v cfg stream cpm entropy = Inr h \<Longrightarrow> reachable ext h False"
| opened:
    "reachable ext h returned \<Longrightarrow> Open ext h pn ad ct = (r, h') \<Longrightarrow> reachable ext h' returned"
| handled:
    "reachable ext h False \<Longrightarrow> HandleCryptoStream_body ext h msg = (out, h')
       \<Longrightarrow> reachable ext h' (out \<noteq> Continue)"

section \<open>Server\<close>

type_synonym UDPAddr = bytes

record publicHeader =
  Raw :: bytes
  VersionFlag :: bool
  hdr_ConnectionID :: ConnectionID
  hdr_VersionNumber :: VersionNumber
  hdr_PacketNumber :: PacketNumber

text \<open>
  A \<open>packetHandler\<close> is an interface value: nil (\<open>None\<close>) or a session, named by a
  number. What the server does to the outside is recorded as events: a datagram
  written to a socket, a session started with \<open>go session.run()\<close>, a packet handed to a
  session with \<open>session.handlePacket\<close>.
\<close>

type_synonym session = nat
type_synonym packetHandler = "session option"

datatype server_event =
    WriteToUDP bytes UDPAddr
  | Run session
  | HandlePacket session UDPAddr publicHeader bytes

text \<open>
  The struct \<open>Server\<close>, with the fields \<open>handlePacket\<close> and \<open>closeCallback\<close> use.
  \<open>newSession\<close> gets the version and the connection ID (the other arguments are the
  server's own fields) and returns a session or an error.
\<close>

record Server =
  sessions :: "ConnectionID \<rightharpoonup> packetHandler"
  newSession :: "VersionNumber \<Rightarrow> ConnectionID \<Rightarrow> error + session"
  events :: "server_event list"

text \<open>
  The functions and constants of the packages \<open>quic\<close> and \<open>protocol\<close> that
  \<open>handlePacket\<close> calls and that are not part of the sources at hand.
  \<open>parsePublicHeader\<close> returns the text of its error, or the header and the number of
  bytes left unread (\<open>r.Len()\<close>); \<open>WritePublicHeader\<close> returns the bytes it wrote (its
  error is only logged).
\<close>

record server_externals =
  MaxPacketSize :: nat
  parsePublicHeader :: "bytes \<Rightarrow> string + (publicHeader \<times> nat)"
  IsSupportedVersion :: "VersionNumber \<Rightarrow> bool"
  WritePublicHeader :: "publicHeader \<Rightarrow> bytes"
  server_SupportedVersionsAsTags :: bytes

text \<open>A socket: its \<open>WriteToUDP\<close> succeeds or fails.\<close>

record UDPConn =
  conn_WriteToUDP :: "bytes \<Rightarrow> UDPAddr \<Rightarrow> error option"

definition composeVersionNegotiation :: "server_externals \<Rightarrow> ConnectionID \<Rightarrow> bytes" where
  "composeVersionNegotiation sx connectionID =
     (let responsePublicHeader =
            \<lparr> Raw = [], VersionFlag = True, hdr_ConnectionID = connectionID,
              hdr_VersionNumber = 0, hdr_PacketNumber = 1 \<rparr>
      in WritePublicHeader sx responsePublicHeader @ server_SupportedVersionsAsTags sx)"

text \<open>
  \<open>handlePacket\<close> holds \<open>sessionsMutex\<close> twice: for the lookup of the session, and, when
  there is none, for the store of the new one, after \<open>newSession\<close> and
  \<open>go session.run()\<close>. Between the two the map is unlocked, so a call is two steps, and
  \<open>closeCallback\<close> and other calls can run in between. A call that has started a new
  session and has not stored it yet is known by its local variables.
\<close>

record pending =
  pending_session :: session
  pending_remoteAddr :: UDPAddr
  pending_hdr :: publicHeader
  pending_data :: bytes

text \<open>
  The end of \<open>handlePacket\<close>: a nil session drops the packet, any other gets it.
\<close>

definition deliver ::
  "Server \<Rightarrow> packetHandler \<Rightarrow> UDPAddr \<Rightarrow> publicHeader \<Rightarrow> bytes \<Rightarrow> error option \<times> Server" where
  "deliver s session remoteAddr hdr data =
     (case session of
        None \<Rightarrow> (None, s)
      | Some sess \<Rightarrow> (None, s\<lparr>events := events s @ [HandlePacket sess remoteAddr hdr data]\<rparr>))"

text \<open>
  The first step, up to the lookup and, when the connection ID has no entry, the start
  of a new session: \<open>Inl\<close> when the call returns in this step, \<open>Inr\<close> when the new
  session is still to be stored.
\<close>

definition handlePacket_lookup ::
  "server_externals \<Rightarrow> Server \<Rightarrow> UDPConn \<Rightarrow> UDPAddr \<Rightarrow> bytes
     \<Rightarrow> (error option \<times> Server) + (pending \<times> Server)" where
  "handlePacket_lookup sx s conn remoteAddr packet =
     (if length packet > MaxPacketSize sx then Inl (Some (qerr PacketTooLarge), s)
      else
        (case parsePublicHeader sx packet of
           Inl msg \<Rightarrow> Inl (Some (qerr_Error InvalidPacketHeader msg), s)
         | Inr (parsed, rLen) \<Rightarrow>
             let hdr = parsed\<lparr>Raw := take (length packet - rLen) packet\<rparr> in
             if VersionFlag hdr \<and> \<not> IsSupportedVersion sx (hdr_VersionNumber hdr) then
               let reply = composeVersionNegotiation sx (hdr_ConnectionID hdr);
                   s1 = s\<lparr>events := events s @ [WriteToUDP reply remoteAddr]\<rparr>
               in
               (case conn_WriteToUDP conn reply remoteAddr of
                  Some err \<Rightarrow> Inl (Some err, s1)
                | None \<Rightarrow> Inl (None, s1))
             else
               (case sessions s (hdr_ConnectionID hdr) of
                  Some session \<Rightarrow>
                    Inl (deliver s session remoteAddr hdr (drop (length packet - rLen) packet))
                | None \<Rightarrow>
                    (case newSession s (hdr_VersionNumber hdr) (hdr_ConnectionID hdr) of
                       Inl err \<Rightarrow> Inl (Some err, s)
                     | Inr session \<Rightarrow>
                         Inr (\<lparr> pending_session = session, pending_remoteAddr = remoteAddr,
                                pending_hdr = hdr,
                                pending_data = drop (length packet - rLen) packet \<rparr>,
                              s\<lparr>events := events s @ [Run session]\<rparr>)))))"

text \<open>The second step: the new session is stored, whatever the entry is by now.\<close>

definition handlePacket_store :: "Server \<Rightarrow> pending \<Rightarrow> error option \<times> Server" where
  "handlePacket_store s p =
     deliver
       (s\<lparr>sessions := (sessions s)(hdr_ConnectionID (pending_hdr p) \<mapsto> Some (pending_session p))\<rparr>)
       (Some (pending_session p)) (pending_remoteAddr p) (pending_hdr p) (pending_data p)"

text \<open>A call that nothing interrupts.\<close>

definition handlePacket ::
  "server_externals \<Rightarrow> Server \<Rightarrow> UDPConn \<Rightarrow> UDPAddr \<Rightarrow> bytes \<Rightarrow> error option \<times> Server" where
  "handlePacket sx s conn remoteAddr packet =
     (case handlePacket_lookup sx s conn remoteAddr packet of
        Inl r \<Rightarrow> r
      | Inr (p, s1) \<Rightarrow> handlePacket_store s1 p)"

definition closeCallback :: "Server \<Rightarrow> ConnectionID \<Rightarrow> Server" where
  "closeCallback s connectionID = s\<lparr>sessions := (sessions s)(connectionID \<mapsto> None)\<rparr>"

text \<open>
  The server with its calls of \<open>handlePacket\<close> in flight (those between their two
  steps), and what can come after a given moment: a call runs its first step and
  returns, or starts a session and is then in flight; a call in flight runs its second
  step; a session is closed.
\<close>

type_synonym server_state = "Server \<times> pending list"

inductive later :: "server_externals \<Rightarrow> server_state \<Rightarrow> server_state \<Rightarrow> bool"
  for sx :: server_externals and c :: server_state where
  now: "later sx c c"
| returned:
    "later sx c (s, inflight) \<Longrightarrow> handlePacket_lookup sx s conn remoteAddr packet = Inl (r, s')
       \<Longrightarrow> later sx c (s', inflight)"
| started:
    "later sx c (s, inflight) \<Longrightarrow> handlePacket_lookup sx s conn remoteAddr packet = Inr (p, s')
       \<Longrightarrow> later sx c (s', p # inflight)"
| stored:
    "later sx c (s, inflight) \<Longrightarrow> p \<in> set inflight
       \<Longrightarrow> later sx c (snd (handlePacket_store s p), remove1 p inflight)"
| closed:
    "later sx c (s, inflight) \<Longrightarrow> later sx c (closeCallback s connectionID, inflight)"

section \<open>A concrete instance\<close>

text \<open>
  Small collaborators on which the definitions can be run. The AEAD with key \<open>k\<close> seals
  by putting \<open>k\<close> in front of the plaintext and opens what starts with \<open>k\<close>; the key
  derivation gives key \<open>f\<close> for the forward-secure AEAD and \<open>s\<close> for the secure one,
  and the null AEAD has key \<open>n\<close>. A source-address token is valid when it is \<open>stk:\<close>
  followed by the address.
\<close>

definition demo_aead :: "char \<Rightarrow> AEAD" where
  "demo_aead k =
     \<lparr> AEAD_Open = (\<lambda>pn ad ct.
         case ct of
           [] \<Rightarrow> Inl (External ''decryption failed'')
         | c # rest \<Rightarrow> if c = k then Inr rest else Inl (External ''decryption failed'')),
       AEAD_Seal = (\<lambda>pn ad pt. k # pt) \<rparr>"

definition demo_kex :: KeyExchange where
  "demo_kex = \<lparr> CalculateSharedKey = (\<lambda>pub. Inr (''shared'' @ pub)), PublicKey = ''pub'' \<rparr>"

definition demo_stkSource :: StkSource where
  "demo_stkSource =
     \<lparr> VerifyToken = (\<lambda>addr token.
         if token = ''stk:'' @ addr then None else Some (External ''STK invalid'')),
       NewToken = (\<lambda>addr. Inr (''stk:'' @ addr)) \<rparr>"

definition demo_scfg :: ServerConfig where
  "demo_scfg =
     \<lparr> scfg_ID = ''scid'',
       scfg_kex = demo_kex,
       scfg_GetLeafCert = (\<lambda>sni. Inr ''leaf''),
       scfg_stkSource = demo_stkSource,
       scfg_Get = ''scfg'',
       scfg_Sign = (\<lambda>sni chlo. Inr (''sig'' @ bytes_of chlo)),
       scfg_GetCertsCompressed = (\<lambda>sni ccs ccrt. Inr ''certs'') \<rparr>"

definition demo_cpm :: ConnectionParametersManager where
  "demo_cpm = \<lparr> SetFromMap = (\<lambda>m. None), GetSHLOMap = (\<lambda>m. Map.empty) \<rparr>"

definition demo_keyDerivation :: KeyDerivationFunction where
  "demo_keyDerivation v forwardSecure secret nonces cid chlo cfg cert divNonce =
     (Some (demo_aead (if forwardSecure then CHR ''f'' else CHR ''s'')), None)"

definition demo_ext :: externals where
  "demo_ext =
     \<lparr> NullAEAD = demo_aead CHR ''n'',
       DeriveKeysChacha20 = demo_keyDerivation,
       NewCurve25519KEX = Inr demo_kex,
       WriteHandshakeMessage = (\<lambda>tag m.
         (if tag = TagSHLO then ''SHLO'' else if tag = TagREJ then ''REJ'' else ''MSG'')
           @ bytes_of (m TagPROF)),
       SupportedVersionsAsTags = ''Q034'' \<rparr>"

text \<open>The state \<open>NewCryptoSetup\<close> makes from 64 bytes of entropy.\<close>

definition demo_setup :: CryptoSetup where
  "demo_setup =
     \<lparr> connID = 1, ip = ''1.2.3.4'', version = 34, scfg = demo_scfg,
       nonce = replicate 32 CHR ''r'', diversificationNonce = replicate 32 CHR ''d'',
       secureAEAD = None, forwardSecureAEAD = None,
       receivedForwardSecurePacket = False, receivedSecurePacket = False,
       keyDerivation = demo_keyDerivation, keyExchange = Inr demo_kex,
       cryptoStream_Write = (\<lambda>reply. None), connectionParametersManager = demo_cpm,
       trace = [] \<rparr>"

text \<open>The same with both AEADs installed, as after a full CHLO.\<close>

definition demo_installed :: CryptoSetup where
  "demo_installed =
     demo_setup\<lparr> secureAEAD := Some (demo_aead CHR ''s''),
                 forwardSecureAEAD := Some (demo_aead CHR ''f'') \<rparr>"

text \<open>
  A full CHLO (the server config ID and a valid source-address token), the same with a
  token that does not verify, and an inchoate CHLO (no server config ID).
\<close>

definition demo_chlo :: TagMap where
  "demo_chlo =
     [TagSNI \<mapsto> ''example.com'', TagSCID \<mapsto> ''scid'', TagSTK \<mapsto> ''stk:1.2.3.4'',
      TagPUBS \<mapsto> ''clientpub'', TagNONC \<mapsto> ''clientnonce'']"

definition demo_chlo_bad_stk :: TagMap where
  "demo_chlo_bad_stk =
     [TagSNI \<mapsto> ''example.com'', TagSCID \<mapsto> ''scid'', TagSTK \<mapsto> ''foobar'',
      TagPUBS \<mapsto> ''clientpub'', TagNONC \<mapsto> ''clientnonce'']"

definition demo_inchoate :: TagMap where
  "demo_inchoate = [TagSNI \<mapsto> ''example.com'']"

text \<open>
  The state after the full CHLO has been handled (the reply is on the stream), and
  after a packet has then been opened under the forward-secure AEAD.
\<close>

definition demo_handled :: CryptoSetup where
  "demo_handled = demo_installed\<lparr> trace := [AeadChanged, StreamWrite ''SHLO''] \<rparr>"

definition demo_forward_secure :: CryptoSetup where
  "demo_forward_secure = demo_handled\<lparr> receivedForwardSecurePacket := True \<rparr>"

text \<open>
  A server instance. A packet is a flag byte, a byte for the connection ID and the
  payload: the flag \<open>V\<close> sets the version flag and offers version 99, any other flag
  means version 34, the only supported one. The connection ID byte \<open>7\<close> is connection 7.
\<close>

definition demo_parsePublicHeader :: "bytes \<Rightarrow> string + (publicHeader \<times> nat)" where
  "demo_parsePublicHeader packet =
     (case packet of
        flag # cid # payload \<Rightarrow>
          Inr (\<lparr> Raw = [], VersionFlag = (flag = CHR ''V''),
                 hdr_ConnectionID = (if cid = CHR ''7'' then 7 else 0),
                 hdr_VersionNumber = (if flag = CHR ''V'' then 99 else 34),
                 hdr_PacketNumber = 1 \<rparr>,
               length payload)
      | _ \<Rightarrow> Inl ''packet too short'')"

definition demo_sx :: server_externals where
  "demo_sx =
     \<lparr> MaxPacketSize = 1452,
       parsePublicHeader = demo_parsePublicHeader,
       IsSupportedVersion = (\<lambda>v. v = 34),
       WritePublicHeader = (\<lambda>hdr. ''VN''),
       server_SupportedVersionsAsTags = ''Q034'' \<rparr>"

text \<open>A server with a session for connection 7, and sockets that work and that fail.\<close>

definition demo_server :: Server where
  "demo_server =
     \<lparr> sessions = [7 \<mapsto> Some 1], newSession = (\<lambda>v cid. Inr 2), events = [] \<rparr>"

definition demo_conn :: UDPConn where
  "demo_conn = \<lparr> conn_WriteToUDP = (\<lambda>packet addr. None) \<rparr>"

definition demo_conn_down :: UDPConn where
  "demo_conn_down =
     \<lparr> conn_WriteToUDP = (\<lambda>packet addr. Some (External ''network is unreachable'')) \<rparr>"

text \<open>
  A call for the new connection 0 that has started session 2 and has not stored it.
\<close>

definition demo_pending :: pending where
  "demo_pending =
     \<lparr> pending_session = 2, pending_remoteAddr = ''other'',
       pending_hdr = \<lparr> Raw = ''Q0'', VersionFlag = False, hdr_ConnectionID = 0,
                       hdr_VersionNumber = 34, hdr_PacketNumber = 1 \<rparr>,
       pending_data = ''hello'' \<rparr>"

section \<open>Properties of Open\<close>

lemmas Open_defs = Open_def Open_forwardSecure_def Open_secure_def

lemma Open_AEADs:
  assumes "Open ext h pn ad ct = (r, h')"
  shows "forwardSecureAEAD h' = forwardSecureAEAD h" and "secureAEAD h' = secureAEAD h"
    and "receivedForwardSecurePacket h \<Longrightarrow> receivedForwardSecurePacket h'"
    and "receivedSecurePacket h \<Longrightarrow> receivedSecurePacket h'"
  using assms
  by (auto simp: Open_defs split: option.splits sum.splits if_splits)

lemma Open_latched_forwardSecure:
  assumes "Open ext h pn ad ct = (r, h')"
    and "receivedForwardSecurePacket h" and "forwardSecureAEAD h \<noteq> None"
  shows "snd r = ForwardSecureTier"
  using assms
  by (auto simp: Open_defs split: option.splits sum.splits if_splits)

lemma Open_latched_secure:
  assumes "Open ext h pn ad ct = (r, h')"
    and "receivedSecurePacket h" and "secureAEAD h \<noteq> None"
  shows "snd r \<noteq> NullTier"
  using assms
  by (auto simp: Open_defs split: option.splits sum.splits if_splits)

lemma succeeded_under_simps:
  "succeeded_under t (Inr x, t') = (t' = t)" "succeeded_under t (Inl e, t') = False"
  by (simp_all add: succeeded_under_def)

lemma succeeded_underD: "succeeded_under t r \<Longrightarrow> snd r = t \<and> (\<exists>x. fst r = Inr x)"
  by (cases r, cases "fst r") (auto simp: succeeded_under_simps)

lemma Open_tier_cases:
  assumes "Open ext h pn ad ct = (r, h')"
  shows "(snd r = ForwardSecureTier \<and> forwardSecureAEAD h' \<noteq> None \<and>
            (receivedForwardSecurePacket h' \<or> (\<exists>e. fst r = Inl e)))
       \<or> (snd r = SecureTier \<and> secureAEAD h' \<noteq> None \<and>
            (receivedSecurePacket h' \<or> (\<exists>e. fst r = Inl e)))
       \<or> snd r = NullTier"
  using assms
  by (auto simp: Open_defs split: option.splits sum.splits if_splits)

lemma Open_success_latches:
  assumes "Open ext h pn ad ct = (r, h')"
  shows "succeeded_under ForwardSecureTier r \<Longrightarrow>
           receivedForwardSecurePacket h' \<and> forwardSecureAEAD h' \<noteq> None"
    and "succeeded_under SecureTier r \<Longrightarrow> receivedSecurePacket h' \<and> secureAEAD h' \<noteq> None"
  using Open_tier_cases [OF assms]
  by (auto dest!: succeeded_underD)

lemma Opens_Cons:
  "fst (Opens ext h ((pn, ad, ct) # calls)) =
     fst (Open ext h pn ad ct) # fst (Opens ext (snd (Open ext h pn ad ct)) calls)"
  by (simp split: prod.splits)

lemma Opens_length: "length (fst (Opens ext h calls)) = length calls"
proof (induction calls arbitrary: h)
  case Nil
  show ?case by simp
next
  case (Cons c calls)
  obtain pn ad ct where c: "c = (pn, ad, ct)" by (cases c) auto
  show ?case unfolding c Opens_Cons by (simp add: Cons.IH)
qed

lemma Opens_latched_forwardSecure:
  "receivedForwardSecurePacket h \<Longrightarrow> forwardSecureAEAD h \<noteq> None \<Longrightarrow>
     r \<in> set (fst (Opens ext h calls)) \<Longrightarrow> snd r = ForwardSecureTier"
proof (induction calls arbitrary: h)
  case Nil
  then show ?case by simp
next
  case (Cons c calls)
  obtain pn ad ct where c: "c = (pn, ad, ct)" by (cases c) auto
  obtain r0 h' where o: "Open ext h pn ad ct = (r0, h')" by (cases "Open ext h pn ad ct") auto
  from Cons.prems(3) have "r = r0 \<or> r \<in> set (fst (Opens ext h' calls))"
    unfolding c Opens_Cons o by simp
  then show ?case
  proof
    assume "r = r0"
    with Open_latched_forwardSecure [OF o] Cons.prems show ?thesis by simp
  next
    assume "r \<in> set (fst (Opens ext h' calls))"
    moreover have "receivedForwardSecurePacket h'" "forwardSecureAEAD h' \<noteq> None"
      using Open_AEADs [OF o] Cons.prems by auto
    ultimately show ?thesis using Cons.IH by blast
  qed
qed

lemma Opens_latched_secure:
  "receivedSecurePacket h \<Longrightarrow> secureAEAD h \<noteq> None \<Longrightarrow>
     r \<in> set (fst (Opens ext h calls)) \<Longrightarrow> snd r \<noteq> NullTier"
proof (induction calls arbitrary: h)
  case Nil
  then show ?case by simp
next
  case (Cons c calls)
  obtain pn ad ct where c: "c = (pn, ad, ct)" by (cases c) auto
  obtain r0 h' where o: "Open ext h pn ad ct = (r0, h')" by (cases "Open ext h pn ad ct") auto
  from Cons.prems(3) have "r = r0 \<or> r \<in> set (fst (Opens ext h' calls))"
    unfolding c Opens_Cons o by simp
  then show ?case
  proof
    assume "r = r0"
    with Open_latched_secure [OF o] Cons.prems show ?thesis by simp
  next
    assume "r \<in> set (fst (Opens ext h' calls))"
    moreover have "receivedSecurePacket h'" "secureAEAD h' \<noteq> None"
      using Open_AEADs [OF o] Cons.prems by auto
    ultimately show ?thesis using Cons.IH by blast
  qed
qed

text \<open>
  Claim C3 (monotonic key tier). In the results of a sequence of \<open>Open\<close> calls on one
  \<open>CryptoSetup\<close>, started in any state: once a call has succeeded under
  \<open>forwardSecureAEAD\<close>, no later call reports a success under \<open>secureAEAD\<close> or under the
  null AEAD; and once a call has succeeded under \<open>secureAEAD\<close>, no later call reports a
  success under the null AEAD.
\<close>

theorem Open_monotonic_key_tier:
  assumes "i < j" and "j < length calls" and "rs = fst (Opens ext h calls)"
  shows "(succeeded_under ForwardSecureTier (rs ! i) \<longrightarrow>
            \<not> succeeded_under SecureTier (rs ! j) \<and> \<not> succeeded_under NullTier (rs ! j))
       \<and> (succeeded_under SecureTier (rs ! i) \<longrightarrow> \<not> succeeded_under NullTier (rs ! j))"
  using assms
proof (induction calls arbitrary: h i j rs)
  case Nil
  then show ?case by simp
next
  case (Cons c calls)
  obtain pn ad ct where c: "c = (pn, ad, ct)" by (cases c) auto
  obtain r0 h' where o: "Open ext h pn ad ct = (r0, h')" by (cases "Open ext h pn ad ct") auto
  define rs' where "rs' = fst (Opens ext h' calls)"
  have rs: "rs = r0 # rs'"
    using Cons.prems(3) unfolding c Opens_Cons o rs'_def by simp
  from Cons.prems obtain j' where j: "j = Suc j'" "j' < length calls" by (cases j) auto
  have len: "length rs' = length calls" by (simp add: rs'_def Opens_length)
  show ?case
  proof (cases i)
    case 0
    have mem: "rs' ! j' \<in> set (fst (Opens ext h' calls))"
      using j len by (simp add: rs'_def [symmetric])
    have fs: "snd (rs' ! j') = ForwardSecureTier" if "succeeded_under ForwardSecureTier r0"
      using Open_success_latches(1) [OF o that] Opens_latched_forwardSecure [OF _ _ mem]
      by simp
    have s: "snd (rs' ! j') \<noteq> NullTier" if "succeeded_under SecureTier r0"
      using Open_success_latches(2) [OF o that] Opens_latched_secure [OF _ _ mem]
      by simp
    have a: "\<not> succeeded_under SecureTier (rs' ! j') \<and> \<not> succeeded_under NullTier (rs' ! j')"
      if "succeeded_under ForwardSecureTier r0"
      using fs [OF that] by (auto dest!: succeeded_underD)
    have b: "\<not> succeeded_under NullTier (rs' ! j')" if "succeeded_under SecureTier r0"
      using s [OF that] by (auto dest!: succeeded_underD)
    show ?thesis
      using 0 j rs a b by simp
  next
    case (Suc i')
    have "i' < j'" using Cons.prems(1) Suc j by simp
    from Cons.IH [OF this j(2) rs'_def] show ?thesis
      using Suc j rs by simp
  qed
qed

lemmas demo_defs = demo_aead_def demo_kex_def demo_stkSource_def demo_scfg_def demo_cpm_def
  demo_keyDerivation_def demo_ext_def demo_setup_def demo_installed_def demo_chlo_def
  demo_chlo_bad_stk_def demo_inchoate_def demo_handled_def demo_forward_secure_def

lemma demo_Opens_forwardSecure:
  "fst (Opens demo_ext demo_installed [(1, ''hdr'', ''fhello''), (2, ''hdr'', ''sworld''), (3, ''hdr'', ''nplain'')])
     = [(Inr ''hello'', ForwardSecureTier), (Inl (External ''decryption failed''), ForwardSecureTier),
        (Inl (External ''decryption failed''), ForwardSecureTier)]"
  by (simp add: Open_defs demo_defs)

lemma demo_Opens_secure:
  "fst (Opens demo_ext demo_installed [(1, ''hdr'', ''sworld''), (2, ''hdr'', ''nplain'')])
     = [(Inr ''world'', SecureTier), (Inl (External ''decryption failed''), SecureTier)]"
  by (simp add: Open_defs demo_defs)

text \<open>
  The theorem at work on the concrete instance: a packet sealed with the forward-secure
  key, then one sealed with the secure key and one with the null key; and a packet
  sealed with the secure key, then one with the null key.
\<close>

theorem Open_monotonic_key_tier_witness:
  "succeeded_under ForwardSecureTier
     (fst (Opens demo_ext demo_installed
        [(1, ''hdr'', ''fhello''), (2, ''hdr'', ''sworld''), (3, ''hdr'', ''nplain'')]) ! 0)
   \<and> \<not> succeeded_under SecureTier
     (fst (Opens demo_ext demo_installed
        [(1, ''hdr'', ''fhello''), (2, ''hdr'', ''sworld''), (3, ''hdr'', ''nplain'')]) ! 1)
   \<and> \<not> succeeded_under NullTier
     (fst (Opens demo_ext demo_installed
        [(1, ''hdr'', ''fhello''), (2, ''hdr'', ''sworld''), (3, ''hdr'', ''nplain'')]) ! 2)
   \<and> succeeded_under SecureTier
     (fst (Opens demo_ext demo_installed [(1, ''hdr'', ''sworld''), (2, ''hdr'', ''nplain'')]) ! 0)
   \<and> \<not> succeeded_under NullTier
     (fst (Opens demo_ext demo_installed [(1, ''hdr'', ''sworld''), (2, ''hdr'', ''nplain'')]) ! 1)"
proof -
  let ?c = "[(1, ''hdr'', ''fhello''), (2, ''hdr'', ''sworld''), (3, ''hdr'', ''nplain'')]
              :: (PacketNumber \<times> bytes \<times> bytes) list"
  let ?d = "[(1, ''hdr'', ''sworld''), (2, ''hdr'', ''nplain'')]
              :: (PacketNumber \<times> bytes \<times> bytes) list"
  have f: "succeeded_under ForwardSecureTier (fst (Opens demo_ext demo_installed ?c) ! 0)"
    unfolding demo_Opens_forwardSecure by (simp add: succeeded_under_simps)
  have s: "succeeded_under SecureTier (fst (Opens demo_ext demo_installed ?d) ! 0)"
    unfolding demo_Opens_secure by (simp add: succeeded_under_simps)
  have a: "(0::nat) < 1" "(1::nat) < length ?c" "(0::nat) < 2" "(2::nat) < length ?c"
    "(1::nat) < length ?d"
    by simp_all
  from Open_monotonic_key_tier [OF a(1) a(2) refl, of demo_ext demo_installed]
       Open_monotonic_key_tier [OF a(3) a(4) refl, of demo_ext demo_installed]
       Open_monotonic_key_tier [OF a(1) a(5) refl, of demo_ext demo_installed]
       f s
  show ?thesis by blast
qed

section \<open>Properties of Seal\<close>

text \<open>
  Claim C4. For every call, \<open>Seal\<close> seals with the AEAD the rule selects: the
  forward-secure AEAD if \<open>receivedForwardSecurePacket\<close> is true, otherwise the secure
  AEAD if it is not nil, otherwise the null AEAD. (Where the rule selects a nil AEAD the
  call panics; it never falls back to a lower tier.)
\<close>

theorem Seal_selects_AEAD:
  "Seal ext h packetNumber associatedData plaintext =
     (case Seal_choice ext h of
        None \<Rightarrow> Inl NilPointerDereference
      | Some aead \<Rightarrow> Inr (AEAD_Seal aead packetNumber associatedData plaintext))"
  by (simp add: Seal_def Seal_choice_def split: option.splits)

section \<open>Reachable states\<close>

lemma handleInchoateCHLO_fields:
  "handleInchoateCHLO ext h sni data cryptoData = (r, h') \<Longrightarrow>
     forwardSecureAEAD h' = forwardSecureAEAD h \<and> secureAEAD h' = secureAEAD h \<and>
     receivedForwardSecurePacket h' = receivedForwardSecurePacket h \<and>
     receivedSecurePacket h' = receivedSecurePacket h \<and>
     diversificationNonce h' = diversificationNonce h"
  by (auto simp: handleInchoateCHLO_def Let_def split: if_splits sum.splits)

lemma handleCHLO_fields:
  "handleCHLO ext h sni data cryptoData = (r, h') \<Longrightarrow>
     receivedForwardSecurePacket h' = receivedForwardSecurePacket h \<and>
     receivedSecurePacket h' = receivedSecurePacket h \<and>
     diversificationNonce h' = diversificationNonce h"
  by (auto simp: handleCHLO_def Let_def split: if_splits sum.splits option.splits prod.splits)

lemma handleMessage_fields:
  "handleMessage ext h chloData cryptoData = (r, h') \<Longrightarrow>
     receivedForwardSecurePacket h' = receivedForwardSecurePacket h \<and>
     receivedSecurePacket h' = receivedSecurePacket h \<and>
     diversificationNonce h' = diversificationNonce h"
  by (auto simp: handleMessage_def Write_def
        split: if_splits sum.splits option.splits prod.splits
        dest!: handleCHLO_fields handleInchoateCHLO_fields)

lemma handleMessage_not_done:
  "handleMessage ext h chloData cryptoData = ((False, None), h') \<Longrightarrow>
     forwardSecureAEAD h' = forwardSecureAEAD h \<and> secureAEAD h' = secureAEAD h"
  by (auto simp: handleMessage_def Write_def
        split: if_splits sum.splits option.splits prod.splits
        dest!: handleInchoateCHLO_fields)

lemma HandleCryptoStream_body_fields:
  "HandleCryptoStream_body ext h msg = (out, h') \<Longrightarrow>
     receivedForwardSecurePacket h' = receivedForwardSecurePacket h \<and>
     receivedSecurePacket h' = receivedSecurePacket h \<and>
     diversificationNonce h' = diversificationNonce h"
  by (auto simp: HandleCryptoStream_body_def
        split: if_splits sum.splits option.splits prod.splits
        dest!: handleMessage_fields)

lemma HandleCryptoStream_body_Continue:
  "HandleCryptoStream_body ext h msg = (Continue, h') \<Longrightarrow>
     forwardSecureAEAD h' = forwardSecureAEAD h \<and> secureAEAD h' = secureAEAD h"
  by (auto simp: HandleCryptoStream_body_def
        split: if_splits sum.splits option.splits prod.splits
        dest!: handleMessage_not_done)

lemma NewCryptoSetup_fields:
  assumes "NewCryptoSetup ext cid addr v cfg stream cpm entropy = Inr h"
  shows "forwardSecureAEAD h = None" "secureAEAD h = None"
    "\<not> receivedForwardSecurePacket h" "\<not> receivedSecurePacket h"
    "length (diversificationNonce h) = 32" "length (nonce h) = 32"
  using assms
  by (auto simp: NewCryptoSetup_def ReadFull_def split: if_splits sum.splits prod.splits)

lemma Open_flag:
  assumes "Open ext h pn ad ct = (r, h')"
  shows "forwardSecureAEAD h' = forwardSecureAEAD h" "secureAEAD h' = secureAEAD h"
    "diversificationNonce h' = diversificationNonce h"
    "receivedForwardSecurePacket h' \<Longrightarrow>
       receivedForwardSecurePacket h \<or> forwardSecureAEAD h \<noteq> None"
    "receivedSecurePacket h' \<Longrightarrow> receivedSecurePacket h \<or> secureAEAD h \<noteq> None"
  using assms
  by (auto simp: Open_defs split: option.splits sum.splits if_splits)

lemma reachable_invariant:
  assumes "reachable ext h returned"
  shows "(\<not> returned \<longrightarrow> forwardSecureAEAD h = None \<and> secureAEAD h = None)
       \<and> (receivedForwardSecurePacket h \<longrightarrow> forwardSecureAEAD h \<noteq> None)
       \<and> (receivedSecurePacket h \<longrightarrow> secureAEAD h \<noteq> None)
       \<and> length (diversificationNonce h) = 32"
  using assms
proof (induction rule: reachable.induct)
  case (created cid addr v cfg stream cpm entropy h)
  then show ?case by (simp add: NewCryptoSetup_fields)
next
  case (opened h returned pn ad ct r h')
  from Open_flag [OF opened.hyps(2)] opened.IH show ?case by auto
next
  case (handled h msg out h')
  note f = HandleCryptoStream_body_fields [OF handled.hyps(2)]
  have c: "forwardSecureAEAD h' = forwardSecureAEAD h \<and> secureAEAD h' = secureAEAD h"
    if "out = Continue"
    using HandleCryptoStream_body_Continue that handled.hyps(2) by blast
  from handled.IH have "\<not> receivedForwardSecurePacket h" "\<not> receivedSecurePacket h"
    by auto
  with f c handled.IH show ?case by auto
qed

text \<open>
  Claim C9. In every reachable state of a \<open>CryptoSetup\<close>, if
  \<open>receivedForwardSecurePacket\<close> is true then \<open>forwardSecureAEAD\<close> is not nil, so that
  \<open>Seal\<close> does not dereference a nil AEAD.
\<close>

theorem receivedForwardSecurePacket_AEAD_installed:
  assumes "reachable ext h returned"
  shows "(receivedForwardSecurePacket h \<longrightarrow> forwardSecureAEAD h \<noteq> None)
       \<and> Seal ext h packetNumber associatedData plaintext \<noteq> Inl NilPointerDereference"
  using reachable_invariant [OF assms]
  by (auto simp: Seal_def split: option.splits)

text \<open>
  Claim C5. \<open>DiversificationNonce\<close> returns the diversification nonce exactly when the
  version is at least 33, \<open>secureAEAD\<close> is not nil and \<open>receivedForwardSecurePacket\<close> is
  false, and nil in every other state; in every reachable state the nonce has 32 bytes.
\<close>

theorem DiversificationNonce_iff:
  "DiversificationNonce h =
     (if version h \<ge> 33 \<and> secureAEAD h \<noteq> None \<and> \<not> receivedForwardSecurePacket h
      then Some (diversificationNonce h) else None)
   \<and> (reachable ext h returned \<longrightarrow> length (diversificationNonce h) = 32)"
  using reachable_invariant [of ext h returned]
  by (auto simp: DiversificationNonce_def)

lemma demo_NewCryptoSetup:
  "NewCryptoSetup demo_ext 1 ''1.2.3.4'' 34 demo_scfg (\<lambda>reply. None) demo_cpm
     (replicate 32 CHR ''r'' @ replicate 32 CHR ''d'') = Inr demo_setup"
  by (simp add: NewCryptoSetup_def ReadFull_def demo_setup_def demo_ext_def)

lemma demo_isInchoateCHLO: "\<not> isInchoateCHLO demo_setup demo_chlo"
  by (simp add: isInchoateCHLO_def demo_defs bytes_of_def)

lemma demo_handleCHLO:
  "handleCHLO demo_ext demo_setup ''example.com'' ''chlo'' demo_chlo
     = (Inr ''SHLO'', demo_installed\<lparr>trace := [AeadChanged]\<rparr>)"
  by (simp add: handleCHLO_def demo_defs bytes_of_def Let_def)

lemma demo_handleMessage:
  "handleMessage demo_ext demo_setup ''chlo'' demo_chlo = ((True, None), demo_handled)"
proof -
  have sni: "demo_chlo TagSNI = Some ''example.com''" by (simp add: demo_chlo_def)
  have w: "Write (demo_installed\<lparr>trace := [AeadChanged]\<rparr>) ''SHLO'' = (None, demo_handled)"
    by (simp add: Write_def demo_handled_def demo_installed_def demo_setup_def)
  show ?thesis
    by (simp add: handleMessage_def sni demo_isInchoateCHLO demo_handleCHLO w)
qed

lemma demo_body:
  "HandleCryptoStream_body demo_ext demo_setup (Inr (TagCHLO, demo_chlo, ''chlo''))
     = (Return None, demo_handled)"
  by (simp add: HandleCryptoStream_body_def demo_handleMessage)

lemma demo_Open:
  "Open demo_ext demo_handled 1 ''hdr'' ''fhello''
     = ((Inr ''hello'', ForwardSecureTier), demo_forward_secure)"
  by (simp add: Open_defs demo_defs)

lemma demo_reachable_handled: "reachable demo_ext demo_handled True"
proof -
  have "reachable demo_ext demo_setup False"
    by (rule reachable.created [OF demo_NewCryptoSetup])
  from reachable.handled [OF this demo_body] show ?thesis by simp
qed

lemma demo_reachable_forward_secure: "reachable demo_ext demo_forward_secure True"
  by (rule reachable.opened [OF demo_reachable_handled demo_Open])

text \<open>
  The state reached by a full CHLO and a packet opened under the forward-secure AEAD.
\<close>

theorem receivedForwardSecurePacket_AEAD_installed_witness:
  "receivedForwardSecurePacket demo_forward_secure
   \<and> forwardSecureAEAD demo_forward_secure \<noteq> None
   \<and> Seal demo_ext demo_forward_secure 2 ''hdr'' ''data'' = Inr ''fdata''"
proof -
  have "receivedForwardSecurePacket demo_forward_secure"
    by (simp add: demo_defs)
  moreover have "Seal demo_ext demo_forward_secure 2 ''hdr'' ''data'' = Inr ''fdata''"
    by (simp add: Seal_def demo_defs)
  ultimately show ?thesis
    using receivedForwardSecurePacket_AEAD_installed [OF demo_reachable_forward_secure]
    by blast
qed

text \<open>
  The nonce is returned after the full CHLO, and neither before it nor after a
  forward-secure packet.
\<close>

theorem DiversificationNonce_iff_witness:
  "DiversificationNonce demo_handled = Some (replicate 32 CHR ''d'')
   \<and> DiversificationNonce demo_forward_secure = None
   \<and> DiversificationNonce demo_setup = None
   \<and> length (diversificationNonce demo_handled) = 32"
proof -
  have "reachable demo_ext demo_setup False"
    by (rule reachable.created [OF demo_NewCryptoSetup])
  from this demo_reachable_handled demo_reachable_forward_secure
       DiversificationNonce_iff [of demo_setup demo_ext False]
       DiversificationNonce_iff [of demo_handled demo_ext True]
       DiversificationNonce_iff [of demo_forward_secure demo_ext True]
  show ?thesis by (simp add: demo_defs)
qed

section \<open>Properties of the handshake\<close>

text \<open>
  Claim C1 says that a CHLO whose server config ID matches and whose source-address
  token fails verification is treated as inchoate: a REJ is sent and no key is
  installed. \<open>isInchoateCHLO\<close> verifies the token and returns \<open>false\<close> whether or not it
  verifies, so the code handles such a CHLO as a full one. On the concrete instance:
  the token \<open>foobar\<close> is refused by the token source, \<open>isInchoateCHLO\<close> is false,
  \<open>handleMessage\<close> returns \<open>done = true\<close>, both AEADs are installed and the message
  written is a SHLO.
\<close>

theorem handleMessage_invalid_STK_handled_as_full_CHLO:
  "VerifyToken (scfg_stkSource (scfg demo_setup)) (ip demo_setup)
      (bytes_of (demo_chlo_bad_stk TagSTK)) = Some (External ''STK invalid'')
   \<and> isInchoateCHLO demo_setup demo_chlo_bad_stk = False
   \<and> handleMessage demo_ext demo_setup ''chlo'' demo_chlo_bad_stk = ((True, None), demo_handled)
   \<and> secureAEAD demo_handled = Some (demo_aead CHR ''s'')
   \<and> forwardSecureAEAD demo_handled = Some (demo_aead CHR ''f'')
   \<and> trace demo_handled = [AeadChanged, StreamWrite (WriteHandshakeMessage demo_ext TagSHLO Map.empty)]"
proof -
  have v: "VerifyToken (scfg_stkSource (scfg demo_setup)) (ip demo_setup)
      (bytes_of (demo_chlo_bad_stk TagSTK)) = Some (External ''STK invalid'')"
    by (simp add: demo_defs bytes_of_def)
  have i: "isInchoateCHLO demo_setup demo_chlo_bad_stk = False"
    by (simp add: isInchoateCHLO_def demo_defs bytes_of_def)
  have sni: "demo_chlo_bad_stk TagSNI = Some ''example.com''"
    by (simp add: demo_chlo_bad_stk_def)
  have c: "handleCHLO demo_ext demo_setup ''example.com'' ''chlo'' demo_chlo_bad_stk
     = (Inr ''SHLO'', demo_installed\<lparr>trace := [AeadChanged]\<rparr>)"
    by (simp add: handleCHLO_def demo_defs bytes_of_def Let_def)
  have w: "Write (demo_installed\<lparr>trace := [AeadChanged]\<rparr>) ''SHLO'' = (None, demo_handled)"
    by (simp add: Write_def demo_handled_def demo_installed_def demo_setup_def)
  have m: "handleMessage demo_ext demo_setup ''chlo'' demo_chlo_bad_stk = ((True, None), demo_handled)"
    by (simp add: handleMessage_def sni i c w)
  have a: "secureAEAD demo_handled = Some (demo_aead CHR ''s'')"
    "forwardSecureAEAD demo_handled = Some (demo_aead CHR ''f'')"
    "trace demo_handled = [AeadChanged, StreamWrite (WriteHandshakeMessage demo_ext TagSHLO Map.empty)]"
    by (simp_all add: demo_defs bytes_of_def)
  from v i m a show ?thesis by blast
qed

lemma handleCHLO_trace:
  "handleCHLO ext h sni data cryptoData = (r, h') \<Longrightarrow>
     (case r of
        Inl err \<Rightarrow> trace h' = trace h
      | Inr reply \<Rightarrow> trace h' = trace h @ [AeadChanged]
          \<and> (\<exists>replyMap. reply = WriteHandshakeMessage ext TagSHLO replyMap))"
  by (auto simp: handleCHLO_def Let_def split: sum.splits option.splits prod.splits)

lemma handleInchoateCHLO_trace:
  "trace (snd (handleInchoateCHLO ext h sni data cryptoData)) =
     (if length data < ClientHelloMinimumSize then trace h
      else trace h @ [SignCall sni (if version h > 30 then Some data else None)])"
  by (auto simp: handleInchoateCHLO_def Let_def split: sum.splits)

text \<open>
  Claim C2, as amended. In every full-CHLO handling step (\<open>handleMessage\<close> returns
  \<open>done = true\<close>) the events of the step are the send on \<open>aeadChanged\<close> and then the write
  of the SHLO on the crypto stream: the signal fires before the SHLO is written, since
  \<open>handleCHLO\<close> sends on the channel before it returns the reply that \<open>handleMessage\<close>
  writes.
\<close>

theorem handleMessage_signal_before_SHLO:
  assumes "handleMessage ext h chloData cryptoData = ((True, None), h')"
  shows "\<exists>replyMap. trace h' =
           trace h @ [AeadChanged, StreamWrite (WriteHandshakeMessage ext TagSHLO replyMap)]"
  using assms
  by (auto simp: handleMessage_def Write_def
        split: option.splits if_splits sum.splits prod.splits
        dest!: handleCHLO_trace)

text \<open>
  Claim C2 as stated (the SHLO is written before the signal fires) fails: the full CHLO
  of the concrete instance is handled with \<open>done = true\<close>, and the signal is the first
  event and the write of the SHLO the second.
\<close>

theorem handleMessage_SHLO_before_signal_counterexample:
  "fst (handleMessage demo_ext demo_setup ''chlo'' demo_chlo) = (True, None)
   \<and> trace (snd (handleMessage demo_ext demo_setup ''chlo'' demo_chlo))
       = [AeadChanged, StreamWrite (WriteHandshakeMessage demo_ext TagSHLO Map.empty)]"
  unfolding demo_handleMessage by (simp add: demo_defs bytes_of_def)

text \<open>
  The amended claim at the full CHLO of the concrete instance.
\<close>

theorem handleMessage_signal_before_SHLO_witness:
  "trace demo_handled = trace demo_setup @ [AeadChanged, StreamWrite ''SHLO'']"
  using handleMessage_signal_before_SHLO [OF demo_handleMessage]
  by (simp add: demo_defs)

text \<open>
  Claim C6. Handling an inchoate CHLO of fewer than \<open>ClientHelloMinimumSize\<close> (1024)
  bytes fails with \<open>CryptoInvalidValueLength\<close>, before anything else is done: in
  \<open>handleInchoateCHLO\<close>, and so in \<open>handleMessage\<close> for an inchoate CHLO that carries a
  non-empty SNI. The full-CHLO path has no such check: \<open>handleCHLO\<close> uses the CHLO
  bytes only as an argument of the key derivation, so two CHLOs on which the key
  derivation agrees are handled alike, whatever their sizes.
\<close>

theorem CHLO_minimum_size_inchoate_only:
  "(length data < ClientHelloMinimumSize \<longrightarrow>
      handleInchoateCHLO ext h sni data cryptoData
        = (Inl (qerr_Error CryptoInvalidValueLength ''CHLO too small''), h))
   \<and> (length data < ClientHelloMinimumSize \<and> cryptoData TagSNI = Some sni \<and> sni \<noteq> []
        \<and> isInchoateCHLO h cryptoData \<longrightarrow>
      handleMessage ext h data cryptoData
        = ((False, Some (qerr_Error CryptoInvalidValueLength ''CHLO too small'')), h))
   \<and> ((\<forall>forwardSecure secret nonces cert divNonce.
          keyDerivation h (version h) forwardSecure secret nonces (connID h) data
            (scfg_Get (scfg h)) cert divNonce
        = keyDerivation h (version h) forwardSecure secret nonces (connID h) data'
            (scfg_Get (scfg h)) cert divNonce) \<longrightarrow>
      handleCHLO ext h sni data cryptoData = handleCHLO ext h sni data' cryptoData)"
proof (intro conjI impI)
  assume "length data < ClientHelloMinimumSize"
  then show "handleInchoateCHLO ext h sni data cryptoData
        = (Inl (qerr_Error CryptoInvalidValueLength ''CHLO too small''), h)"
    by (simp add: handleInchoateCHLO_def)
next
  assume "length data < ClientHelloMinimumSize \<and> cryptoData TagSNI = Some sni \<and> sni \<noteq> []
        \<and> isInchoateCHLO h cryptoData"
  then show "handleMessage ext h data cryptoData
        = ((False, Some (qerr_Error CryptoInvalidValueLength ''CHLO too small'')), h)"
    by (simp add: handleMessage_def handleInchoateCHLO_def)
next
  assume "\<forall>forwardSecure secret nonces cert divNonce.
          keyDerivation h (version h) forwardSecure secret nonces (connID h) data
            (scfg_Get (scfg h)) cert divNonce
        = keyDerivation h (version h) forwardSecure secret nonces (connID h) data'
            (scfg_Get (scfg h)) cert divNonce"
  then show "handleCHLO ext h sni data cryptoData = handleCHLO ext h sni data' cryptoData"
    by (simp add: handleCHLO_def Let_def
          cong: sum.case_cong option.case_cong prod.case_cong)
qed

lemma demo_keyDerivation_data:
  "keyDerivation demo_setup v forwardSecure secret nonces cid data cfg cert divNonce
     = keyDerivation demo_setup v forwardSecure secret nonces cid data' cfg cert divNonce"
  by (simp add: demo_setup_def demo_keyDerivation_def)

text \<open>
  A four-byte inchoate CHLO is refused; a four-byte full CHLO is handled like one of
  1024 bytes, and a SHLO is sent.
\<close>

theorem CHLO_minimum_size_inchoate_only_witness:
  "length ''chlo'' < ClientHelloMinimumSize
   \<and> isInchoateCHLO demo_setup demo_inchoate
   \<and> handleInchoateCHLO demo_ext demo_setup ''example.com'' ''chlo'' demo_inchoate
       = (Inl (qerr_Error CryptoInvalidValueLength ''CHLO too small''), demo_setup)
   \<and> handleMessage demo_ext demo_setup ''chlo'' demo_inchoate
       = ((False, Some (qerr_Error CryptoInvalidValueLength ''CHLO too small'')), demo_setup)
   \<and> handleCHLO demo_ext demo_setup ''example.com'' ''chlo'' demo_chlo
       = handleCHLO demo_ext demo_setup ''example.com'' (replicate 1024 CHR ''c'') demo_chlo
   \<and> handleMessage demo_ext demo_setup ''chlo'' demo_chlo = ((True, None), demo_handled)"
proof -
  have l: "length ''chlo'' < ClientHelloMinimumSize"
    by (simp add: ClientHelloMinimumSize_def)
  have i: "isInchoateCHLO demo_setup demo_inchoate"
    by (simp add: isInchoateCHLO_def demo_inchoate_def)
  have s: "demo_inchoate TagSNI = Some ''example.com''" "''example.com'' \<noteq> []"
    by (simp_all add: demo_inchoate_def)
  note t = CHLO_minimum_size_inchoate_only
    [of "''chlo''" demo_ext demo_setup "''example.com''" demo_inchoate "replicate 1024 CHR ''c''"]
  note u = CHLO_minimum_size_inchoate_only
    [of "''chlo''" demo_ext demo_setup "''example.com''" demo_chlo "replicate 1024 CHR ''c''"]
  from t l i s u demo_keyDerivation_data demo_handleMessage show ?thesis
    by (simp add: demo_setup_def demo_keyDerivation_def)
qed

text \<open>
  Claim C7. When the message read from the crypto stream has a tag other than CHLO, the
  loop of \<open>HandleCryptoStream\<close> returns \<open>InvalidCryptoMessageType\<close> at once: the state is
  unchanged (the message is not handled, nothing is written) and the rest of the stream
  is not read.
\<close>

theorem HandleCryptoStream_rejects_non_CHLO:
  assumes "messageTag \<noteq> TagCHLO"
  shows "HandleCryptoStream_body ext h (Inr (messageTag, cryptoData, chloData))
           = (Return (Some (qerr InvalidCryptoMessageType)), h)
       \<and> HandleCryptoStream ext h (Inr (messageTag, cryptoData, chloData) # stream)
           = (Some (qerr InvalidCryptoMessageType), h)"
  using assms by (simp add: HandleCryptoStream_body_def)

text \<open>
  A REJ followed by a CHLO on the stream.
\<close>

theorem HandleCryptoStream_rejects_non_CHLO_witness:
  "HandleCryptoStream demo_ext demo_setup
     [Inr (TagREJ, demo_chlo, ''rej''), Inr (TagCHLO, demo_chlo, ''chlo'')]
     = (Some (qerr InvalidCryptoMessageType), demo_setup)"
proof -
  have "TagREJ \<noteq> TagCHLO" by simp
  from HandleCryptoStream_rejects_non_CHLO [OF this] show ?thesis by blast
qed

text \<open>
  Claim C8. When an inchoate CHLO (of at least the minimum size) is handled,
  \<open>ServerConfig.Sign\<close> is called once, with the CHLO bytes when the version is greater
  than 30 and with nil when it is 30 or less; an error of that call is the error
  returned, and its result is the proof in the REJ.
\<close>

theorem handleInchoateCHLO_Sign_argument:
  assumes "\<not> length data < ClientHelloMinimumSize"
  shows "trace (snd (handleInchoateCHLO ext h sni data cryptoData))
           = trace h @ [SignCall sni (if version h > 30 then Some data else None)]
       \<and> (case scfg_Sign (scfg h) sni (if version h > 30 then Some data else None) of
            Inl err \<Rightarrow> fst (handleInchoateCHLO ext h sni data cryptoData) = Inl err
          | Inr prf \<Rightarrow>
              (case fst (handleInchoateCHLO ext h sni data cryptoData) of
                 Inl err \<Rightarrow> True
               | Inr reply \<Rightarrow> \<exists>m. reply = WriteHandshakeMessage ext TagREJ m
                    \<and> m TagPROF = Some prf))"
  using assms
  by (cases "version h > 30") (auto simp: handleInchoateCHLO_def Let_def split: sum.splits)

text \<open>
  Version 34 signs the CHLO bytes, version 30 signs nil.
\<close>

theorem handleInchoateCHLO_Sign_argument_witness:
  "trace (snd (handleInchoateCHLO demo_ext demo_setup ''example.com''
       (replicate 1024 CHR ''c'') demo_inchoate))
     = [SignCall ''example.com'' (Some (replicate 1024 CHR ''c''))]
   \<and> trace (snd (handleInchoateCHLO demo_ext (demo_setup\<lparr>version := 30\<rparr>) ''example.com''
       (replicate 1024 CHR ''c'') demo_inchoate))
     = [SignCall ''example.com'' None]"
proof -
  have l: "\<not> length (replicate 1024 CHR ''c'') < ClientHelloMinimumSize"
    by (simp add: ClientHelloMinimumSize_def)
  from handleInchoateCHLO_Sign_argument [OF l, of demo_ext demo_setup]
       handleInchoateCHLO_Sign_argument [OF l, of demo_ext "demo_setup\<lparr>version := 30\<rparr>"]
  show ?thesis by (simp add: demo_setup_def)
qed

section \<open>Properties of the server\<close>

lemmas demo_server_defs = demo_parsePublicHeader_def demo_sx_def demo_server_def demo_conn_def
  demo_conn_down_def demo_pending_def


lemma deliver_sessions: "sessions (snd (deliver s session remoteAddr hdr data)) = sessions s"
  by (simp add: deliver_def split: option.splits)







lemma demo_lookup_started:
  "handlePacket_lookup demo_sx demo_server demo_conn ''other'' ''Q0hello''
     = Inr (demo_pending, demo_server\<lparr>events := [Run 2]\<rparr>)"
  by (simp add: handlePacket_lookup_def Let_def demo_server_defs)


text \<open>
  The condition on the calls in flight is needed. A call for the new connection 0 starts
  session 2; the session is closed before the call stores it; the store then overwrites
  the nil entry, and the next packet for connection 0 is handed to session 2.
\<close>

lemma store_after_close_overwrites:
  "handlePacket_lookup demo_sx demo_server demo_conn ''other'' ''Q0hello''
     = Inr (demo_pending, demo_server\<lparr>events := [Run 2]\<rparr>)
   \<and> sessions (closeCallback (demo_server\<lparr>events := [Run 2]\<rparr>) 0) 0 = Some None
   \<and> sessions (snd (handlePacket_store (closeCallback (demo_server\<lparr>events := [Run 2]\<rparr>) 0)
        demo_pending)) 0 = Some (Some 2)
   \<and> events (snd (handlePacket demo_sx
        (snd (handlePacket_store (closeCallback (demo_server\<lparr>events := [Run 2]\<rparr>) 0)
           demo_pending))
        demo_conn ''other'' ''Q0again''))
     = [Run 2,
        HandlePacket 2 ''other'' (pending_hdr demo_pending) ''hello'',
        HandlePacket 2 ''other'' (pending_hdr demo_pending) ''again'']"
  by (simp add: handlePacket_def handlePacket_lookup_def handlePacket_store_def deliver_def
        closeCallback_def Let_def demo_server_defs)

end
